theory Spec2Isabelle
  imports Complex_Main
begin

section \<open>The rules decision engine\<close>

text \<open>
  The script \<^verbatim>\<open>sqanti3_filter.py\<close> calls \<^verbatim>\<open>run_rules(args)\<close> but neither defines nor
  imports it; the decision engine is therefore taken from the specification (section 4.2)
  and from the module docstring of the script.
\<close>

datatype structural_category =
  FSM | ISM | NIC | NNC | Antisense | Intergenic | Genic | Genic_intron | Fusion
  | Other_category string

record IsoformRecord =
  rec_id :: string
  category :: structural_category
  intrapriming_flag :: bool
  has_polyA_motif :: bool
  is_RT_switching :: bool
  all_junctions_canonical :: bool
  all_junctions_short_read_supported :: bool
  min_junction_coverage :: "int option"
  is_mono_exonic :: bool
  distance_to_annotated_3prime_end :: "int option"

record RulesParameters =
  intrapriming_adenine_threshold :: rat
  run_A_length_threshold :: int
  min_junction_coverage_param :: int
  max_distance_to_known_3prime_end :: int
  rp_filter_mono_exonic :: bool

text \<open>
  Modelled from the spec: the category-specific test of the Rules Decision Engine, which
  the source calls as \<^verbatim>\<open>run_rules\<close> without defining it. FSM, ISM and NIC are kept unless
  intrapriming is not rescued by a polyA motif; NNC, antisense, intergenic and genic need
  the three-way conjunction; every other category is discarded. The engine reads only the
  pre-thresholded flags of the record.
\<close>

definition no_unrescued_intrapriming :: "IsoformRecord \<Rightarrow> bool" where
  "no_unrescued_intrapriming r \<longleftrightarrow> \<not> intrapriming_flag r \<or> has_polyA_motif r"

definition junction_support :: "IsoformRecord \<Rightarrow> bool" where
  "junction_support r \<longleftrightarrow> all_junctions_canonical r \<or> all_junctions_short_read_supported r"

fun category_test :: "structural_category \<Rightarrow> IsoformRecord \<Rightarrow> bool" where
  "category_test FSM r = no_unrescued_intrapriming r"
| "category_test ISM r = no_unrescued_intrapriming r"
| "category_test NIC r = no_unrescued_intrapriming r"
| "category_test NNC r =
     (no_unrescued_intrapriming r \<and> \<not> is_RT_switching r \<and> junction_support r)"
| "category_test Antisense r =
     (no_unrescued_intrapriming r \<and> \<not> is_RT_switching r \<and> junction_support r)"
| "category_test Intergenic r =
     (no_unrescued_intrapriming r \<and> \<not> is_RT_switching r \<and> junction_support r)"
| "category_test Genic r =
     (no_unrescued_intrapriming r \<and> \<not> is_RT_switching r \<and> junction_support r)"
| "category_test _ r = False"

text \<open>
  Modelled from the spec: the verdict of the Rules Decision Engine. The mono-exonic
  modifier is applied after the category-specific test, regardless of category.
\<close>

definition keep :: "RulesParameters \<Rightarrow> IsoformRecord \<Rightarrow> bool" where
  "keep p r =
     (if rp_filter_mono_exonic p \<and> is_mono_exonic r then False
      else category_test (category r) r)"

text \<open>A mono-exonic NNC record that passes all three conditions, and a parameter set that filters mono-exonic isoforms.\<close>

definition nnc_mono_record :: IsoformRecord where
  "nnc_mono_record =
     \<lparr>rec_id = ''PB.1.1'', category = NNC, intrapriming_flag = False,
      has_polyA_motif = False, is_RT_switching = False, all_junctions_canonical = True,
      all_junctions_short_read_supported = False, min_junction_coverage = None,
      is_mono_exonic = True, distance_to_annotated_3prime_end = None\<rparr>"

definition nic_record :: IsoformRecord where
  "nic_record =
     \<lparr>rec_id = ''PB.2.1'', category = NIC, intrapriming_flag = True,
      has_polyA_motif = True, is_RT_switching = True, all_junctions_canonical = False,
      all_junctions_short_read_supported = False, min_junction_coverage = Some 2,
      is_mono_exonic = False, distance_to_annotated_3prime_end = Some 10\<rparr>"

definition mono_filter_params :: RulesParameters where
  "mono_filter_params =
     \<lparr>intrapriming_adenine_threshold = 6 / 10, run_A_length_threshold = 6,
      min_junction_coverage_param = 3, max_distance_to_known_3prime_end = 50,
      rp_filter_mono_exonic = True\<rparr>"

section \<open>Python strings and paths\<close>

text \<open>
  Strings are lists of characters with code points below 256. \<open>isspace\<close> lists the code
  points below 256 that Python's \<^verbatim>\<open>str.isspace\<close> accepts; \<open>strip\<close> is \<^verbatim>\<open>str.strip()\<close>.
\<close>

definition isspace :: "char \<Rightarrow> bool" where
  "isspace c \<longleftrightarrow> of_char c \<in> {9, 10, 11, 12, 13, 28, 29, 30, 31, 32, 133, 160 :: nat}"

definition strip :: "string \<Rightarrow> string" where
  "strip s = rev (dropWhile isspace (rev (dropWhile isspace s)))"

definition rstrip_char :: "char \<Rightarrow> string \<Rightarrow> string" where
  "rstrip_char c s = rev (dropWhile (\<lambda>x. x = c) (rev s))"

definition startswith :: "string \<Rightarrow> string \<Rightarrow> bool" where
  "startswith s p \<longleftrightarrow> take (length p) s = p"

text \<open>\<^verbatim>\<open>h.readline()\<close> on a freshly opened file: the text up to and including the first newline.\<close>

fun readline :: "string \<Rightarrow> string" where
  "readline [] = []"
| "readline (c # cs) = (if c = CHR ''\<newline>'' then [c] else c # readline cs)"

text \<open>
  A file opened with \<^verbatim>\<open>open(p)\<close> is read in text mode with universal newlines: a carriage
  return, alone or followed by a line feed, reaches the program as one line feed.
\<close>

fun universal_newlines :: "string \<Rightarrow> string" where
  "universal_newlines [] = []"
| "universal_newlines [c] = [if c = CHR 0x0D then CHR ''\<newline>'' else c]"
| "universal_newlines (c # d # cs) =
     (if c = CHR 0x0D \<and> d = CHR ''\<newline>'' then CHR ''\<newline>'' # universal_newlines cs
      else if c = CHR 0x0D then CHR ''\<newline>'' # universal_newlines (d # cs)
      else c # universal_newlines (d # cs))"

text \<open>Iterating over an open text file: its lines, each with its newline.\<close>

fun lines_from :: "string \<Rightarrow> string \<Rightarrow> string list" where
  "lines_from cur [] = (if cur = [] then [] else [cur])"
| "lines_from cur (c # cs) =
     (if c = CHR ''\<newline>'' then (cur @ [c]) # lines_from [] cs else lines_from (cur @ [c]) cs)"

definition file_lines :: "string \<Rightarrow> string list" where
  "file_lines content = lines_from [] (universal_newlines content)"

text \<open>\<^verbatim>\<open>s.rfind(sub)\<close>: the highest index at which \<open>sub\<close> occurs in \<open>s\<close>, or \<open>-1\<close>.\<close>

definition rfind :: "string \<Rightarrow> string \<Rightarrow> int" where
  "rfind s sub =
     (case filter (\<lambda>i. take (length sub) (drop i s) = sub) (rev [0 ..< Suc (length s)]) of
        [] \<Rightarrow> - 1
      | i # _ \<Rightarrow> int i)"

text \<open>\<^verbatim>\<open>s[a:b]\<close>: a negative index counts from the end, and both are clipped to the string.\<close>

definition clip_index :: "string \<Rightarrow> int \<Rightarrow> nat" where
  "clip_index s i =
     (if i < 0 then nat (max (i + int (length s)) 0) else min (nat i) (length s))"

definition slice :: "string \<Rightarrow> int \<Rightarrow> int \<Rightarrow> string" where
  "slice s a b = take (clip_index s b - clip_index s a) (drop (clip_index s a) s)"

text \<open>\<^verbatim>\<open>os.path.dirname\<close> of \<^verbatim>\<open>posixpath\<close>.\<close>

definition dirname :: "string \<Rightarrow> string" where
  "dirname p =
     (let head = slice p 0 (rfind p ''/'' + 1)
      in if head \<noteq> [] \<and> head \<noteq> replicate (length head) (CHR ''/'')
         then rstrip_char (CHR ''/'') head else head)"

section \<open>The run's state, arguments and external collaborators\<close>

datatype error =
  SystemExit int | AttributeError string | NameError string | FileNotFoundError string
  | TypeError string | OSError string

text \<open>
  The world a run acts on: the regular files (a path string names a file), the paths that
  are directories, and what has been printed to the two streams, one entry per
  \<^verbatim>\<open>print\<close> call. Permissions and links are outside the model, and a file can be
  opened for writing at any path.
\<close>

record world =
  files :: "string \<rightharpoonup> string"
  dirs :: "string set"
  stdout :: "string list"
  stderr :: "string list"

record SeqRecord =
  record_id :: string
  description :: string
  seq :: string

record gmapRecord =
  seqid :: string
  chr :: string
  strand :: string
  ref_exons :: "(int \<times> int) list"

record SAMRecord =
  qID :: string
  record_line :: string

text \<open>
  What the script imports or reads from its environment and does not define: the module
  globals \<^verbatim>\<open>RSCRIPTPATH\<close> and \<^verbatim>\<open>utilitiesPath\<close>, \<^verbatim>\<open>os.path.abspath\<close>, the text Python prints
  for a number, \<^verbatim>\<open>os.makedirs\<close> (given the path, the directories and the files, it raises
  or returns the directories there are afterwards), the effect of the shell command on
  the files, and the readers and writers of Biopython and cupcake, each a function of the
  text of the file it reads.
\<close>

record externals =
  RSCRIPTPATH :: string
  utilitiesPath :: string
  abspath :: "string \<Rightarrow> string"
  str_float :: "rat \<Rightarrow> string"
  str_int :: "int \<Rightarrow> string"
  makedirs :: "string \<Rightarrow> string set \<Rightarrow> (string \<rightharpoonup> string) \<Rightarrow> error + string set"
  subprocess_call :: "string \<Rightarrow> (string \<rightharpoonup> string) \<Rightarrow> (string \<rightharpoonup> string)"
  SeqIO_parse :: "string \<Rightarrow> string \<Rightarrow> SeqRecord list"
  SeqIO_write :: "SeqRecord \<Rightarrow> string \<Rightarrow> string"
  collapseGFFReader :: "string \<Rightarrow> gmapRecord list"
  write_collapseGFF_format :: "gmapRecord \<Rightarrow> string"
  GMAPSAMReader_header :: "string \<Rightarrow> string"
  GMAPSAMReader_records :: "string \<Rightarrow> SAMRecord list"

datatype subcmd = Rules_cmd | ML_cmd

text \<open>
  The namespace \<^verbatim>\<open>parse_args\<close> returns. An option that was not given is \<open>None\<close>; the
  two options whose default is the boolean \<^verbatim>\<open>False\<close> and whose given value is a string
  (\<^verbatim>\<open>force_fsm_in\<close>, \<^verbatim>\<open>intermediate_files\<close>) are \<open>None\<close> at their default. The floats are
  the rationals they denote (no NaN, no infinity). A namespace holds only the options of
  the chosen subcommand; the script reads the others nowhere. The options \<^verbatim>\<open>skipJunction\<close>,
  \<^verbatim>\<open>saturation\<close> and \<^verbatim>\<open>report\<close> are never read and are left out.
\<close>

record args =
  subcommand :: "subcmd option"
  sqanti_class :: string
  isoforms :: "string option"
  gtf :: "string option"
  sam :: "string option"
  faa :: "string option"
  output_name :: "string option"
  dir :: "string option"
  intrapriming :: rat
  filter_mono_exonic :: bool
  runAlength :: int
  max_dist_to_known_end :: int
  min_cov :: int
  percent_training :: rat
  TP :: "string option"
  TN :: "string option"
  threshold :: rat
  force_fsm_in :: "string option"
  intermediate_files :: "string option"
  remove_columns :: "string option"
  max_class_size :: int

type_synonym 'a outcome = "(error + 'a) \<times> world"

definition print_out :: "string \<Rightarrow> world \<Rightarrow> world" where
  "print_out msg w = w\<lparr>stdout := stdout w @ [msg]\<rparr>"

definition print_err :: "string \<Rightarrow> world \<Rightarrow> world" where
  "print_err msg w = w\<lparr>stderr := stderr w @ [msg]\<rparr>"

text \<open>\<^verbatim>\<open>os.path.isfile\<close> holds of a regular file, \<^verbatim>\<open>os.path.exists\<close> also of a directory.\<close>

definition isfile :: "world \<Rightarrow> string \<Rightarrow> bool" where
  "isfile w p \<longleftrightarrow> files w p \<noteq> None"

definition path_exists :: "world \<Rightarrow> string \<Rightarrow> bool" where
  "path_exists w p \<longleftrightarrow> files w p \<noteq> None \<or> p \<in> dirs w"

text \<open>\<^verbatim>\<open>open(p)\<close>, \<^verbatim>\<open>open(p, 'w')\<close> (which empties the file at once) and \<^verbatim>\<open>f.write(s)\<close>.\<close>

definition open_r :: "world \<Rightarrow> string \<Rightarrow> error + string" where
  "open_r w p = (case files w p of None \<Rightarrow> Inl (FileNotFoundError p) | Some c \<Rightarrow> Inr c)"

definition open_w :: "string \<Rightarrow> world \<Rightarrow> world" where
  "open_w p w = w\<lparr>files := (files w)(p \<mapsto> [])\<rparr>"

definition fwrite :: "string \<Rightarrow> string \<Rightarrow> world \<Rightarrow> world" where
  "fwrite p s w =
     w\<lparr>files := (files w)(p \<mapsto> (case files w p of None \<Rightarrow> s | Some c \<Rightarrow> c @ s))\<rparr>"

definition str_opt :: "string option \<Rightarrow> string" where
  "str_opt x = (case x of None \<Rightarrow> ''None'' | Some s \<Rightarrow> s)"

definition str_flag :: "string option \<Rightarrow> string" where
  "str_flag x = (case x of None \<Rightarrow> ''False'' | Some s \<Rightarrow> s)"

definition str_bool :: "bool \<Rightarrow> string" where
  "str_bool b = (if b then ''True'' else ''False'')"

definition doesnt_exist :: "string \<Rightarrow> string" where
  "doesnt_exist p = ''ERROR: '' @ p @ '' doesn't exist. Abort!''"

definition then_do :: "(world \<Rightarrow> unit outcome) \<Rightarrow> (world \<Rightarrow> unit outcome) \<Rightarrow> world \<Rightarrow> unit outcome" where
  "then_do f g w = (case f w of (Inl e, w') \<Rightarrow> (Inl e, w') | (Inr _, w') \<Rightarrow> g w')"

section \<open>filter\_files\<close>

text \<open>
  The loop shared by the four formats: \<^verbatim>\<open>for r in records: if ident(r) in ids_to_keep:
  write(render(r))\<close>, on the file \<open>fout\<close>.
\<close>

fun write_kept ::
  "('r \<Rightarrow> string) \<Rightarrow> ('r \<Rightarrow> string) \<Rightarrow> string set \<Rightarrow> string \<Rightarrow> 'r list \<Rightarrow> world \<Rightarrow> world" where
  "write_kept ident render ids_to_keep fout [] w = w"
| "write_kept ident render ids_to_keep fout (r # rs) w =
     write_kept ident render ids_to_keep fout rs
       (if ident r \<in> ids_to_keep then fwrite fout (render r) w else w)"

definition output_prefix :: "args \<Rightarrow> error + string" where
  "output_prefix a =
     (case (dir a, output_name a) of
        (Some d, Some out) \<Rightarrow> Inr (d @ ''/'' @ out)
      | _ \<Rightarrow> Inl (TypeError ''NoneType''))"

definition fafq_type_of :: "string \<Rightarrow> string" where
  "fafq_type_of content = (if startswith (readline content) ''@'' then ''fastq'' else ''fasta'')"

definition filter_isoforms :: "externals \<Rightarrow> args \<Rightarrow> string \<Rightarrow> string set \<Rightarrow> world \<Rightarrow> unit outcome" where
  "filter_isoforms ext a prefix ids_to_keep w =
     (case isoforms a of
        None \<Rightarrow> (Inr (), w)
      | Some p \<Rightarrow>
          (case open_r w p of
             Inl e \<Rightarrow> (Inl e, w)
           | Inr h \<Rightarrow>
               (let fafq_type = fafq_type_of h;
                    fout = prefix @ ''.filtered.'' @ fafq_type;
                    w1 = open_w fout w
                in case open_r w1 p of
                     Inl e \<Rightarrow> (Inl e, w1)
                   | Inr content \<Rightarrow>
                       (Inr (),
                        print_out (''Output written to: '' @ fout)
                          (write_kept record_id (\<lambda>r. SeqIO_write ext r fafq_type) ids_to_keep
                             fout (SeqIO_parse ext content fafq_type) w1)))))"

definition filter_gtf :: "externals \<Rightarrow> args \<Rightarrow> string \<Rightarrow> string set \<Rightarrow> world \<Rightarrow> unit outcome" where
  "filter_gtf ext a prefix ids_to_keep w =
     (case gtf a of
        None \<Rightarrow> (Inr (), w)
      | Some p \<Rightarrow>
          (let outputGTF = prefix @ ''.filtered.gtf'';
               w1 = open_w outputGTF w
           in case open_r w1 p of
                Inl e \<Rightarrow> (Inl e, w1)
              | Inr content \<Rightarrow>
                  (Inr (),
                   print_out (''Output written to: '' @ outputGTF)
                     (write_kept seqid (write_collapseGFF_format ext) ids_to_keep
                        outputGTF (collapseGFFReader ext content) w1))))"

definition filter_sam :: "externals \<Rightarrow> args \<Rightarrow> string \<Rightarrow> string set \<Rightarrow> world \<Rightarrow> unit outcome" where
  "filter_sam ext a prefix ids_to_keep w =
     (case sam a of
        None \<Rightarrow> (Inr (), w)
      | Some p \<Rightarrow>
          (let outputSam = prefix @ ''.filtered.sam'';
               w1 = open_w outputSam w
           in case open_r w1 p of
                Inl e \<Rightarrow> (Inl e, w1)
              | Inr content \<Rightarrow>
                  (Inr (),
                   print_out (''Output written to: '' @ outputSam)
                     (write_kept qID (\<lambda>r. record_line r @ ''\<newline>'') ids_to_keep
                        outputSam (GMAPSAMReader_records ext content)
                        (fwrite outputSam (GMAPSAMReader_header ext content) w1)))))"

definition filter_faa :: "externals \<Rightarrow> args \<Rightarrow> string \<Rightarrow> string set \<Rightarrow> world \<Rightarrow> unit outcome" where
  "filter_faa ext a prefix ids_to_keep w =
     (case faa a of
        None \<Rightarrow> (Inr (), w)
      | Some p \<Rightarrow>
          (let outputFAA = prefix @ ''.filtered.faa'';
               w1 = open_w outputFAA w
           in case open_r w1 p of
                Inl e \<Rightarrow> (Inl e, w1)
              | Inr content \<Rightarrow>
                  (Inr (),
                   print_out (''Output written to: '' @ outputFAA)
                     (write_kept record_id
                        (\<lambda>r. ''>'' @ description r @ ''\<newline>'' @ seq r @ ''\<newline>'') ids_to_keep
                        outputFAA (SeqIO_parse ext content ''fasta'') w1))))"

definition filter_files :: "externals \<Rightarrow> args \<Rightarrow> string set \<Rightarrow> world \<Rightarrow> unit outcome" where
  "filter_files ext a ids_to_keep w =
     (case output_prefix a of
        Inl e \<Rightarrow> (Inl e, w)
      | Inr prefix \<Rightarrow>
          then_do (filter_isoforms ext a prefix ids_to_keep)
            (then_do (filter_gtf ext a prefix ids_to_keep)
               (then_do (filter_sam ext a prefix ids_to_keep)
                  (filter_faa ext a prefix ids_to_keep))) w)"



section \<open>run\_ML\<close>

definition RSCRIPT_ML :: string where
  "RSCRIPT_ML = ''SQANTI3_MLfilter.R''"

text \<open>The command line as first formatted; the source continues the string over a line break, which leaves five blanks before \<^verbatim>\<open>-e\<close>.\<close>

definition ml_base_cmd :: "externals \<Rightarrow> args \<Rightarrow> string" where
  "ml_base_cmd ext a =
     RSCRIPTPATH ext @ '' '' @ utilitiesPath ext @ ''/'' @ RSCRIPT_ML
     @ '' -c '' @ sqanti_class a @ '' -o '' @ str_opt (output_name a)
     @ '' -d '' @ str_opt (dir a) @ '' -t '' @ str_float ext (percent_training a)
     @ '' -j '' @ str_float ext (threshold a) @ '' -i '' @ str_float ext (intrapriming a)
     @ '' -f '' @ str_flag (force_fsm_in a) @ ''     -e '' @ str_bool (filter_mono_exonic a)
     @ '' -m '' @ str_flag (intermediate_files a) @ '' -z '' @ str_int ext (max_class_size a)"

text \<open>
  One of the three blocks \<^verbatim>\<open>if args.X is not None: if not os.path.isfile(args.X): ...
  sys.exit(-1) else: cmd = cmd + flag.format(args.X)\<close>.
\<close>

definition add_file_option :: "string \<Rightarrow> string option \<Rightarrow> string \<Rightarrow> world \<Rightarrow> string outcome" where
  "add_file_option flag arg cmd w =
     (case arg of
        None \<Rightarrow> (Inr cmd, w)
      | Some p \<Rightarrow>
          if \<not> isfile w p then (Inl (SystemExit (- 1)), print_err (doesnt_exist p) w)
          else (Inr (cmd @ flag @ p), w))"

definition inclusion_list_path :: "args \<Rightarrow> error + string" where
  "inclusion_list_path a =
     (case (dir a, output_name a) of
        (Some d, Some out) \<Rightarrow> Inr (d @ ''/'' @ out @ ''_inclusion-list.txt'')
      | _ \<Rightarrow> Inl (TypeError ''NoneType''))"

definition run_ML :: "externals \<Rightarrow> args \<Rightarrow> world \<Rightarrow> (string set) outcome" where
  "run_ML ext a w =
     (case add_file_option '' -p '' (TP a) (ml_base_cmd ext a) w of
        (Inl e, w1) \<Rightarrow> (Inl e, w1)
      | (Inr cmd1, w1) \<Rightarrow>
     (case add_file_option '' -n '' (TN a) cmd1 w1 of
        (Inl e, w2) \<Rightarrow> (Inl e, w2)
      | (Inr cmd2, w2) \<Rightarrow>
     (case add_file_option '' -r '' (remove_columns a) cmd2 w2 of
        (Inl e, w3) \<Rightarrow> (Inl e, w3)
      | (Inr cmd, w3) \<Rightarrow>
          (let w4 = print_out cmd w3;
               w5 = w4\<lparr>files := subprocess_call ext cmd (files w4)\<rparr>
           in case inclusion_list_path a of
                Inl e \<Rightarrow> (Inl e, w5)
              | Inr inclusion_list \<Rightarrow>
                  (case open_r w5 inclusion_list of
                     Inl e \<Rightarrow> (Inl e, w5)
                   | Inr content \<Rightarrow> (Inr (set (map strip (file_lines content))), w5))))))"



section \<open>main\<close>

definition declared_missing :: "world \<Rightarrow> string option \<Rightarrow> bool" where
  "declared_missing w arg = (case arg of None \<Rightarrow> False | Some p \<Rightarrow> \<not> path_exists w p)"

text \<open>
  Lines 164 to 185: the presence checks. The messages for \<^verbatim>\<open>--isoforms\<close> and \<^verbatim>\<open>--gtf\<close>
  format \<^verbatim>\<open>args.isoform\<close> and \<^verbatim>\<open>args.gtf_file\<close>, attributes the namespace does not have, so
  evaluating them raises before anything is printed. The range check on
  \<^verbatim>\<open>--intrapriming\<close> prints and goes on.
\<close>

definition check_common :: "externals \<Rightarrow> args \<Rightarrow> world \<Rightarrow> args outcome" where
  "check_common ext a0 w =
     (let a = a0\<lparr>sqanti_class := abspath ext (sqanti_class a0)\<rparr>
      in if \<not> isfile w (sqanti_class a) then
           (Inl (SystemExit (- 1)), print_err (doesnt_exist (sqanti_class a)) w)
         else if declared_missing w (isoforms a) then (Inl (AttributeError ''isoform''), w)
         else if declared_missing w (gtf a) then (Inl (AttributeError ''gtf_file''), w)
         else if declared_missing w (sam a) then
           (Inl (SystemExit (- 1)), print_err (doesnt_exist (str_opt (sam a))) w)
         else if declared_missing w (faa a) then
           (Inl (SystemExit (- 1)), print_err (doesnt_exist (str_opt (faa a))) w)
         else if intrapriming a < 25 / 100 \<or> intrapriming a > 1 then
           (Inr a,
            print_err (''ERROR: --intrapriming must be between 0.25-1, instead given ''
                       @ str_float ext (intrapriming a) @ ''! Abort!'') w)
         else (Inr a, w))"

text \<open>
  Lines 187 to 195: the defaults of the output directory and prefix. A directory that was
  given and does not exist is made, and \<^verbatim>\<open>os.makedirs\<close> may raise.
\<close>

definition define_output :: "externals \<Rightarrow> args \<Rightarrow> world \<Rightarrow> args outcome" where
  "define_output ext a w =
     (case (case dir a of
              None \<Rightarrow>
                (Inr (a\<lparr>dir := Some (dirname (sqanti_class a))\<rparr>),
                 print_err (''Output directory not defined. All the outputs will be stored at ''
                            @ dirname (sqanti_class a) @ '' directory'') w)
            | Some d \<Rightarrow>
                if \<not> path_exists w d then
                  (case makedirs ext d (dirs w) (files w) of
                     Inl e \<Rightarrow> (Inl e, w)
                   | Inr ds \<Rightarrow> (Inr a, w\<lparr>dirs := ds\<rparr>))
                else (Inr a, w))
      of (Inl e, w1) \<Rightarrow> (Inl e, w1)
       | (Inr a1, w1) \<Rightarrow>
           (case output_name a1 of
              None \<Rightarrow>
                (let out = slice (sqanti_class a1) (rfind (sqanti_class a1) ''/'' + 1)
                             (rfind (sqanti_class a1) ''_classification.txt'')
                 in (Inr (a1\<lparr>output_name := Some out\<rparr>),
                     print_err (''Output name not defined. All the outputs will have the prefix ''
                                @ out) w1))
            | Some out \<Rightarrow> (Inr a1, w1)))"


text \<open>Lines 203 to 218: the branch of the ML subcommand.\<close>

definition main_ML :: "externals \<Rightarrow> args \<Rightarrow> world \<Rightarrow> unit outcome" where
  "main_ML ext a w =
     (if declared_missing w (TP a) then
        (Inl (SystemExit (- 1)), print_err (doesnt_exist (str_opt (TP a))) w)
      else if declared_missing w (TN a) then
        (Inl (SystemExit (- 1)), print_err (doesnt_exist (str_opt (TN a))) w)
      else if declared_missing w (remove_columns a) then
        (Inl (SystemExit (- 1)), print_err (doesnt_exist (str_opt (remove_columns a))) w)
      else if percent_training a < 0 \<or> percent_training a > 1 then
        (Inl (SystemExit (- 1)),
         print_err (''ERROR: --percent_training must be between 0-1, instead given ''
                    @ str_float ext (intrapriming a) @ ''! Abort!'') w)
      else case run_ML ext a w of
             (Inl e, w1) \<Rightarrow> (Inl e, w1)
           | (Inr ids, w1) \<Rightarrow> filter_files ext a ids w1)"

text \<open>Lines 222 to 228: the branch of the rules subcommand; \<^verbatim>\<open>run_rules\<close> is bound nowhere.\<close>

definition main_rules :: "externals \<Rightarrow> args \<Rightarrow> world \<Rightarrow> unit outcome" where
  "main_rules ext a w =
     (if runAlength a < 4 \<or> runAlength a > 20 then
        (Inl (SystemExit (- 1)),
         print_err (''ERROR: --runAlength must be between 4-20, instead given ''
                    @ str_int ext (runAlength a) @ ''! Abort!'') w)
      else (Inl (NameError ''run_rules''), w))"

text \<open>
  \<open>main\<close>, from the parsed arguments on. Without a subcommand the namespace holds only
  \<^verbatim>\<open>subcommand\<close>, and line 164 fails on \<^verbatim>\<open>args.sqanti_class\<close>.
\<close>

definition main :: "externals \<Rightarrow> args \<Rightarrow> world \<Rightarrow> unit outcome" where
  "main ext a0 w =
     (case subcommand a0 of
        None \<Rightarrow> (Inl (AttributeError ''sqanti_class''), w)
      | Some sc \<Rightarrow>
          (case check_common ext a0 w of
             (Inl e, w1) \<Rightarrow> (Inl e, w1)
           | (Inr a1, w1) \<Rightarrow>
               (case define_output ext a1 w1 of
                  (Inl e, w2) \<Rightarrow> (Inl e, w2)
                | (Inr a2, w2) \<Rightarrow>
                    (let w3 = print_out ''\<newline>Running SQANTI3 filtering...\<newline>'' w2
                     in case sc of
                          ML_cmd \<Rightarrow> main_ML ext a2 w3
                        | Rules_cmd \<Rightarrow> main_rules ext a2 w3))))"

section \<open>Example runs\<close>

text \<open>
  Concrete collaborators for the evaluations below: a reader of one-letter records (each
  character of the file that is a letter is a record with that identifier), a writer that
  prints the identifier on a line, an \<^verbatim>\<open>os.makedirs\<close> that raises on the empty path and
  makes any other, and an external command that writes the inclusion list \<open>a\<close>, \<open>c\<close>.
\<close>

definition letter_records :: "string \<Rightarrow> string list" where
  "letter_records content = map (\<lambda>c. [c]) (filter (\<lambda>c. c \<noteq> CHR ''\<newline>'' \<and> c \<noteq> CHR ''>'' \<and> c \<noteq> CHR ''@'') content)"

definition example_ext :: externals where
  "example_ext =
     \<lparr>RSCRIPTPATH = ''Rscript'', utilitiesPath = ''utilities'', abspath = (\<lambda>p. p),
      str_float = (\<lambda>x. ''x''), str_int = (\<lambda>n. ''n''),
      makedirs = (\<lambda>p ds fs. if p = [] then Inl (FileNotFoundError p) else Inr (insert p ds)),
      subprocess_call = (\<lambda>cmd fs. fs(''d/o_inclusion-list.txt'' \<mapsto> ''a\<newline> c \<newline>'')),
      SeqIO_parse = (\<lambda>content fmt.
         map (\<lambda>i. \<lparr>record_id = i, description = i @ '' len=1'', seq = ''ACGT''\<rparr>)
           (letter_records content)),
      SeqIO_write = (\<lambda>r fmt. (if fmt = ''fastq'' then ''@'' else ''>'') @ record_id r @ ''\<newline>''),
      collapseGFFReader = (\<lambda>content.
         map (\<lambda>i. \<lparr>seqid = i, chr = ''chr1'', strand = ''+'', ref_exons = [(1, 9)]\<rparr>)
           (letter_records content)),
      write_collapseGFF_format = (\<lambda>r. chr r @ '' '' @ seqid r @ ''\<newline>''),
      GMAPSAMReader_header = (\<lambda>content. takeWhile (\<lambda>c. c \<noteq> CHR ''\<newline>'') content @ ''\<newline>''),
      GMAPSAMReader_records = (\<lambda>content.
         map (\<lambda>i. \<lparr>qID = i, record_line = i @ '' 0 chr1''\<rparr>)
           (letter_records (dropWhile (\<lambda>c. c \<noteq> CHR ''\<newline>'') content)))\<rparr>"

definition example_args :: args where
  "example_args =
     \<lparr>subcommand = Some ML_cmd, sqanti_class = ''d/o_classification.txt'',
      isoforms = Some ''in.fa'', gtf = Some ''in.gtf'', sam = Some ''in.sam'',
      faa = Some ''in.faa'', output_name = Some ''o'', dir = Some ''d'',
      intrapriming = 6 / 10, filter_mono_exonic = False, runAlength = 6,
      max_dist_to_known_end = 50, min_cov = 3, percent_training = 8 / 10,
      TP = None, TN = None, threshold = 7 / 10, force_fsm_in = None,
      intermediate_files = None, remove_columns = None, max_class_size = 3000\<rparr>"

definition example_world :: world where
  "example_world =
     \<lparr>files = [''d/o_classification.txt'' \<mapsto> ''isoform'',
               ''in.fa'' \<mapsto> ''>a\<newline>>b\<newline>>c\<newline>'',
               ''in.gtf'' \<mapsto> ''cab'',
               ''in.sam'' \<mapsto> ''@HD\<newline>b\<newline>c\<newline>a\<newline>'',
               ''in.faa'' \<mapsto> ''>b\<newline>>a\<newline>''],
      dirs = {''d''}, stdout = [], stderr = []\<rparr>"

section \<open>Properties of the rules decision engine\<close>

text \<open>
  C1. For every isoform record with structural category FSM, ISM or NIC, the engine
  returns keep = true if and only if the record does not have intrapriming or has a
  polyA motif, the mono-exonic modifier set aside (that is, when the modifier does not
  force a discard).
\<close>

theorem keep_fsm_ism_nic:
  assumes "category r \<in> {FSM, ISM, NIC}"
    and "\<not> (rp_filter_mono_exonic p \<and> is_mono_exonic r)"
  shows "keep p r \<longleftrightarrow> (\<not> intrapriming_flag r \<or> has_polyA_motif r)"
  using assms by (auto simp: keep_def no_unrescued_intrapriming_def)

theorem keep_fsm_ism_nic_witness:
  "category nic_record \<in> {FSM, ISM, NIC}
   \<and> \<not> (rp_filter_mono_exonic mono_filter_params \<and> is_mono_exonic nic_record)
   \<and> keep mono_filter_params nic_record"
  using keep_fsm_ism_nic [of nic_record mono_filter_params]
  by (simp add: nic_record_def mono_filter_params_def)

text \<open>
  C2, as stated: for every record of category NNC, antisense, intergenic or genic the
  engine returns keep = true if and only if the three conditions hold. The mono-exonic
  modifier of the same section forces a discard regardless of category, so the
  equivalence fails for a mono-exonic record when mono-exonic isoforms are filtered out.
\<close>

theorem keep_nnc_like_counterexample:
  "category nnc_mono_record \<in> {NNC, Antisense, Intergenic, Genic}
   \<and> \<not> (keep mono_filter_params nnc_mono_record \<longleftrightarrow>
          ((\<not> intrapriming_flag nnc_mono_record \<or> has_polyA_motif nnc_mono_record)
           \<and> \<not> is_RT_switching nnc_mono_record
           \<and> (all_junctions_canonical nnc_mono_record
                \<or> all_junctions_short_read_supported nnc_mono_record)))"
  by (simp add: keep_def nnc_mono_record_def mono_filter_params_def)

text \<open>
  C2, amended: for every record of category NNC, antisense, intergenic or genic, the
  mono-exonic modifier set aside, the engine returns keep = true if and only if the
  record has no unrescued intrapriming, is not RT-switching, and has all junctions
  canonical or all junctions short-read supported.
\<close>

theorem keep_nnc_like:
  assumes "category r \<in> {NNC, Antisense, Intergenic, Genic}"
    and "\<not> (rp_filter_mono_exonic p \<and> is_mono_exonic r)"
  shows "keep p r \<longleftrightarrow>
           (\<not> intrapriming_flag r \<or> has_polyA_motif r)
           \<and> \<not> is_RT_switching r
           \<and> (all_junctions_canonical r \<or> all_junctions_short_read_supported r)"
  using assms
  by (auto simp: keep_def no_unrescued_intrapriming_def junction_support_def)

theorem keep_nnc_like_witness:
  "category nnc_mono_record \<in> {NNC, Antisense, Intergenic, Genic}
   \<and> \<not> (rp_filter_mono_exonic (mono_filter_params\<lparr>rp_filter_mono_exonic := False\<rparr>)
          \<and> is_mono_exonic nnc_mono_record)
   \<and> keep (mono_filter_params\<lparr>rp_filter_mono_exonic := False\<rparr>) nnc_mono_record"
  using keep_nnc_like [of nnc_mono_record "mono_filter_params\<lparr>rp_filter_mono_exonic := False\<rparr>"]
  by (simp add: nnc_mono_record_def)

section \<open>Properties of main\<close>




text \<open>
  C4, on the code. With \<^verbatim>\<open>--intrapriming\<close> 0.25 or 1.0 the ML run of the example prints
  nothing to stderr and completes. With 0.24 or 1.01 the message is printed, but no
  \<^verbatim>\<open>sys.exit\<close> follows it (the sibling checks on \<^verbatim>\<open>--percent_training\<close> and
  \<^verbatim>\<open>--runAlength\<close> have one): the run goes on, returns normally and writes the filtered
  files.
\<close>

theorem intrapriming_out_of_range_not_fatal:
  "stderr (snd (main example_ext (example_args\<lparr>intrapriming := 25 / 100\<rparr>) example_world)) = []
   \<and> stderr (snd (main example_ext (example_args\<lparr>intrapriming := 1\<rparr>) example_world)) = []
   \<and> stderr (snd (main example_ext (example_args\<lparr>intrapriming := 24 / 100\<rparr>) example_world))
       = [''ERROR: --intrapriming must be between 0.25-1, instead given x! Abort!'']
   \<and> fst (main example_ext (example_args\<lparr>intrapriming := 24 / 100\<rparr>) example_world) = Inr ()
   \<and> files (snd (main example_ext (example_args\<lparr>intrapriming := 24 / 100\<rparr>) example_world))
        ''d/o.filtered.fasta'' = Some ''>a\<newline>>c\<newline>''
   \<and> stderr (snd (main example_ext (example_args\<lparr>intrapriming := 101 / 100\<rparr>) example_world))
       = [''ERROR: --intrapriming must be between 0.25-1, instead given x! Abort!'']
   \<and> fst (main example_ext (example_args\<lparr>intrapriming := 101 / 100\<rparr>) example_world) = Inr ()"
  by code_simp

text \<open>
  C5, on the code. A missing \<^verbatim>\<open>--sam\<close> or \<^verbatim>\<open>--faa\<close> file ends the run with exit status
  -1 and a message that holds the path. A missing \<^verbatim>\<open>--isoforms\<close> or \<^verbatim>\<open>--gtf\<close> file ends
  it with an attribute error raised while the message is being formatted
  (\<^verbatim>\<open>args.isoform\<close>, \<^verbatim>\<open>args.gtf_file\<close>), and nothing is printed: the path is not reported.
\<close>

theorem missing_companion_file_report:
  "main example_ext (example_args\<lparr>sam := Some ''nope.sam''\<rparr>) example_world
     = (Inl (SystemExit (- 1)),
        example_world\<lparr>stderr := [''ERROR: nope.sam doesn't exist. Abort!'']\<rparr>)
   \<and> main example_ext (example_args\<lparr>faa := Some ''nope.faa''\<rparr>) example_world
     = (Inl (SystemExit (- 1)),
        example_world\<lparr>stderr := [''ERROR: nope.faa doesn't exist. Abort!'']\<rparr>)
   \<and> main example_ext (example_args\<lparr>isoforms := Some ''nope.fa''\<rparr>) example_world
     = (Inl (AttributeError ''isoform''), example_world)
   \<and> main example_ext (example_args\<lparr>gtf := Some ''nope.gtf''\<rparr>) example_world
     = (Inl (AttributeError ''gtf_file''), example_world)"
  by (simp add: main_def check_common_def example_args_def example_world_def example_ext_def
      declared_missing_def path_exists_def isfile_def print_err_def doesnt_exist_def str_opt_def)




section \<open>Properties of filter\_files\<close>

lemma fwrite_files:
  "files (fwrite p s w) = (files w)(p \<mapsto> (case files w p of None \<Rightarrow> s | Some c \<Rightarrow> c @ s))"
  "stdout (fwrite p s w) = stdout w" "stderr (fwrite p s w) = stderr w"
  by (simp_all add: fwrite_def)

lemma open_w_files:
  "files (open_w p w) = (files w)(p \<mapsto> [])"
  "stdout (open_w p w) = stdout w" "stderr (open_w p w) = stderr w"
  by (simp_all add: open_w_def)

lemma write_kept_streams:
  "stdout (write_kept ident render ids fout rs w) = stdout w"
  "stderr (write_kept ident render ids fout rs w) = stderr w"
  by (induction rs arbitrary: w) (simp_all add: fwrite_files)

lemma write_kept_files:
  "files w fout \<noteq> None \<Longrightarrow>
   files (write_kept ident render ids fout rs w) =
     (files w)(fout \<mapsto> the (files w fout) @ concat (map render (filter (\<lambda>r. ident r \<in> ids) rs)))"
proof (induction rs arbitrary: w)
  case Nil
  then show ?case by auto
next
  case (Cons r rs)
  show ?case
  proof (cases "ident r \<in> ids")
    case True
    have "files (fwrite fout (render r) w) fout \<noteq> None"
      by (simp add: fwrite_files)
    from Cons.IH [OF this] True Cons.prems show ?thesis
      by (auto simp: fwrite_files)
  next
    case False
    with Cons.IH [OF Cons.prems] show ?thesis by simp
  qed
qed


lemma fafq_type_cases: "fafq_type_of h = ''fasta'' \<or> fafq_type_of h = ''fastq''"
  by (simp add: fafq_type_of_def)

lemma filter_isoforms_eq:
  assumes "isoforms a = Some p" and "files w p = Some h"
  shows "fst (filter_isoforms ext a prefix ids w) = Inr ()"
    and "files (snd (filter_isoforms ext a prefix ids w)) =
      (files w)(prefix @ ''.filtered.'' @ fafq_type_of h \<mapsto>
           concat (map (\<lambda>r. SeqIO_write ext r (fafq_type_of h))
             (filter (\<lambda>r. record_id r \<in> ids)
                (SeqIO_parse ext (if p = prefix @ ''.filtered.'' @ fafq_type_of h then [] else h)
                   (fafq_type_of h)))))"
    and "stdout (snd (filter_isoforms ext a prefix ids w)) =
      stdout w @ [''Output written to: '' @ prefix @ ''.filtered.'' @ fafq_type_of h]"
    and "stderr (snd (filter_isoforms ext a prefix ids w)) = stderr w"
  using assms
  by (simp_all add: filter_isoforms_def open_r_def Let_def write_kept_files write_kept_streams
      print_out_def open_w_files)

lemma filter_gtf_eq:
  assumes "gtf a = Some p" and "files (open_w (prefix @ ''.filtered.gtf'') w) p = Some content"
  shows "fst (filter_gtf ext a prefix ids w) = Inr ()"
    and "files (snd (filter_gtf ext a prefix ids w)) =
      (files w)(prefix @ ''.filtered.gtf'' \<mapsto>
           concat (map (write_collapseGFF_format ext)
             (filter (\<lambda>r. seqid r \<in> ids) (collapseGFFReader ext content))))"
    and "stdout (snd (filter_gtf ext a prefix ids w)) =
      stdout w @ [''Output written to: '' @ prefix @ ''.filtered.gtf'']"
    and "stderr (snd (filter_gtf ext a prefix ids w)) = stderr w"
  using assms
  by (simp_all add: filter_gtf_def open_r_def Let_def write_kept_files write_kept_streams
      print_out_def open_w_files)

lemma filter_sam_eq:
  assumes "sam a = Some p" and "files (open_w (prefix @ ''.filtered.sam'') w) p = Some content"
  shows "fst (filter_sam ext a prefix ids w) = Inr ()"
    and "files (snd (filter_sam ext a prefix ids w)) =
      (files w)(prefix @ ''.filtered.sam'' \<mapsto>
           GMAPSAMReader_header ext content @
           concat (map (\<lambda>r. record_line r @ ''\<newline>'')
             (filter (\<lambda>r. qID r \<in> ids) (GMAPSAMReader_records ext content))))"
    and "stdout (snd (filter_sam ext a prefix ids w)) =
      stdout w @ [''Output written to: '' @ prefix @ ''.filtered.sam'']"
    and "stderr (snd (filter_sam ext a prefix ids w)) = stderr w"
  using assms
  by (simp_all add: filter_sam_def open_r_def Let_def write_kept_files write_kept_streams
      print_out_def open_w_files fwrite_files)

lemma filter_faa_eq:
  assumes "faa a = Some p" and "files (open_w (prefix @ ''.filtered.faa'') w) p = Some content"
  shows "fst (filter_faa ext a prefix ids w) = Inr ()"
    and "files (snd (filter_faa ext a prefix ids w)) =
      (files w)(prefix @ ''.filtered.faa'' \<mapsto>
           concat (map (\<lambda>r. ''>'' @ description r @ ''\<newline>'' @ seq r @ ''\<newline>'')
             (filter (\<lambda>r. record_id r \<in> ids) (SeqIO_parse ext content ''fasta''))))"
    and "stdout (snd (filter_faa ext a prefix ids w)) =
      stdout w @ [''Output written to: '' @ prefix @ ''.filtered.faa'']"
    and "stderr (snd (filter_faa ext a prefix ids w)) = stderr w"
  using assms
  by (simp_all add: filter_faa_def open_r_def Let_def write_kept_files write_kept_streams
      print_out_def open_w_files)

lemma filter_isoforms_frame:
  assumes "q \<noteq> prefix @ ''.filtered.fasta''" and "q \<noteq> prefix @ ''.filtered.fastq''"
  shows "files (snd (filter_isoforms ext a prefix ids w)) q = files w q"
proof (cases "isoforms a")
  case None
  then show ?thesis by (simp add: filter_isoforms_def)
next
  case (Some p)
  show ?thesis
  proof (cases "files w p")
    case None
    with Some show ?thesis by (simp add: filter_isoforms_def open_r_def)
  next
    case (Some h)
    have "q \<noteq> prefix @ ''.filtered.'' @ fafq_type_of h"
      using assms fafq_type_cases [of h] by auto
    with filter_isoforms_eq(2) [OF \<open>isoforms a = Some p\<close> Some, of ext prefix ids]
    show ?thesis by simp
  qed
qed

lemma filter_gtf_frame:
  assumes "q \<noteq> prefix @ ''.filtered.gtf''"
  shows "files (snd (filter_gtf ext a prefix ids w)) q = files w q"
proof (cases "gtf a")
  case None
  then show ?thesis by (simp add: filter_gtf_def)
next
  case (Some p)
  show ?thesis
  proof (cases "files (open_w (prefix @ ''.filtered.gtf'') w) p")
    case None
    with Some assms show ?thesis
      by (simp add: filter_gtf_def open_r_def Let_def open_w_files)
  next
    case (Some content)
    with filter_gtf_eq(2) [OF \<open>gtf a = Some p\<close> Some, of ext ids] assms
    show ?thesis by simp
  qed
qed

lemma filter_sam_frame:
  assumes "q \<noteq> prefix @ ''.filtered.sam''"
  shows "files (snd (filter_sam ext a prefix ids w)) q = files w q"
proof (cases "sam a")
  case None
  then show ?thesis by (simp add: filter_sam_def)
next
  case (Some p)
  show ?thesis
  proof (cases "files (open_w (prefix @ ''.filtered.sam'') w) p")
    case None
    with Some assms show ?thesis
      by (simp add: filter_sam_def open_r_def Let_def open_w_files)
  next
    case (Some content)
    with filter_sam_eq(2) [OF \<open>sam a = Some p\<close> Some, of ext ids] assms
    show ?thesis by simp
  qed
qed

lemma filter_faa_frame:
  assumes "q \<noteq> prefix @ ''.filtered.faa''"
  shows "files (snd (filter_faa ext a prefix ids w)) q = files w q"
proof (cases "faa a")
  case None
  then show ?thesis by (simp add: filter_faa_def)
next
  case (Some p)
  show ?thesis
  proof (cases "files (open_w (prefix @ ''.filtered.faa'') w) p")
    case None
    with Some assms show ?thesis
      by (simp add: filter_faa_def open_r_def Let_def open_w_files)
  next
    case (Some content)
    with filter_faa_eq(2) [OF \<open>faa a = Some p\<close> Some, of ext ids] assms
    show ?thesis by simp
  qed
qed

lemma then_do_frame:
  assumes "\<And>v. files (snd (f v)) q = files v q" and "\<And>v. files (snd (g v)) q = files v q"
  shows "files (snd (then_do f g w)) q = files w q"
proof (cases "f w")
  case (Pair r w')
  have "files w' q = files w q" using assms(1) [of w] Pair by simp
  then show ?thesis
    using Pair assms(2) [of w'] by (cases r) (simp_all add: then_do_def)
qed

lemma then_do_skip: "(\<And>v. f v = (Inr (), v)) \<Longrightarrow> then_do f g w = g w"
  by (simp add: then_do_def)




text \<open>
  C7. When the sequence file is filtered, its first line decides the container: if it starts
  with \<open>@\<close> the records are parsed and written as \<open>fastq\<close>, into the file with the suffix
  \<open>.filtered.fastq\<close>; otherwise they are parsed and written as \<open>fasta\<close>, into the file with the
  suffix \<open>.filtered.fasta\<close>. The file with the other suffix is left as it was, and the path
  reported on the standard output is the one written. The parser reads the sequence file
  after the output file has been opened for writing, so it finds it empty when the two
  paths are the same.
\<close>

theorem filter_isoforms_container_type:
  assumes "isoforms a = Some p" and "open_r w p = Inr h"
  shows "fst (filter_isoforms ext a prefix ids w) = Inr ()
    \<and> (startswith (readline h) ''@'' \<longrightarrow>
         files (snd (filter_isoforms ext a prefix ids w)) (prefix @ ''.filtered.fastq'') =
           Some (concat (map (\<lambda>r. SeqIO_write ext r ''fastq'')
             (filter (\<lambda>r. record_id r \<in> ids)
                (SeqIO_parse ext (if p = prefix @ ''.filtered.fastq'' then [] else h) ''fastq''))))
         \<and> files (snd (filter_isoforms ext a prefix ids w)) (prefix @ ''.filtered.fasta'') =
             files w (prefix @ ''.filtered.fasta'')
         \<and> stdout (snd (filter_isoforms ext a prefix ids w)) =
             stdout w @ [''Output written to: '' @ prefix @ ''.filtered.fastq''])
    \<and> (\<not> startswith (readline h) ''@'' \<longrightarrow>
         files (snd (filter_isoforms ext a prefix ids w)) (prefix @ ''.filtered.fasta'') =
           Some (concat (map (\<lambda>r. SeqIO_write ext r ''fasta'')
             (filter (\<lambda>r. record_id r \<in> ids)
                (SeqIO_parse ext (if p = prefix @ ''.filtered.fasta'' then [] else h) ''fasta''))))
         \<and> files (snd (filter_isoforms ext a prefix ids w)) (prefix @ ''.filtered.fastq'') =
             files w (prefix @ ''.filtered.fastq'')
         \<and> stdout (snd (filter_isoforms ext a prefix ids w)) =
             stdout w @ [''Output written to: '' @ prefix @ ''.filtered.fasta''])"
proof -
  have c: "files w p = Some h"
    using assms(2) by (simp add: open_r_def split: option.splits)
  note e = filter_isoforms_eq [OF assms(1) c, of ext prefix ids]
  show ?thesis
  proof (cases "startswith (readline h) ''@''")
    case True
    then have t: "fafq_type_of h = ''fastq''" by (simp add: fafq_type_of_def)
    from e True show ?thesis unfolding t by simp
  next
    case False
    then have t: "fafq_type_of h = ''fasta''" by (simp add: fafq_type_of_def)
    from e False show ?thesis unfolding t by simp
  qed
qed

theorem filter_isoforms_container_type_witness:
  "isoforms example_args = Some ''in.fa''
   \<and> open_r example_world ''in.fa'' = Inr ''>a\<newline>>b\<newline>>c\<newline>''
   \<and> \<not> startswith (readline ''>a\<newline>>b\<newline>>c\<newline>'') ''@''
   \<and> files (snd (filter_isoforms example_ext example_args ''d/o'' {''a'', ''c''} example_world))
       ''d/o.filtered.fasta'' = Some ''>a\<newline>>c\<newline>''
   \<and> files (snd (filter_isoforms example_ext example_args ''d/o'' {''a'', ''c''} example_world))
       ''d/o.filtered.fastq'' = None
   \<and> open_r (example_world\<lparr>files := [''in.fa'' \<mapsto> ''@a\<newline>@b\<newline>@c\<newline>'']\<rparr>) ''in.fa''
       = Inr ''@a\<newline>@b\<newline>@c\<newline>''
   \<and> startswith (readline ''@a\<newline>@b\<newline>@c\<newline>'') ''@''
   \<and> files (snd (filter_isoforms example_ext example_args ''d/o'' {''a'', ''c''}
         (example_world\<lparr>files := [''in.fa'' \<mapsto> ''@a\<newline>@b\<newline>@c\<newline>'']\<rparr>)))
       ''d/o.filtered.fastq'' = Some ''@a\<newline>@c\<newline>''
   \<and> files (snd (filter_isoforms example_ext example_args ''d/o'' {''a'', ''c''}
         (example_world\<lparr>files := [''in.fa'' \<mapsto> ''@a\<newline>@b\<newline>@c\<newline>'']\<rparr>)))
       ''d/o.filtered.fasta'' = None"
proof -
  have h1: "isoforms example_args = Some ''in.fa''" by (simp add: example_args_def)
  have h2: "open_r example_world ''in.fa'' = Inr ''>a\<newline>>b\<newline>>c\<newline>''"
    by (simp add: open_r_def example_world_def)
  have h3: "open_r (example_world\<lparr>files := [''in.fa'' \<mapsto> ''@a\<newline>@b\<newline>@c\<newline>'']\<rparr>) ''in.fa''
       = Inr ''@a\<newline>@b\<newline>@c\<newline>''"
    by (simp add: open_r_def)
  have s1: "\<not> startswith (readline ''>a\<newline>>b\<newline>>c\<newline>'') ''@''"
    by (simp add: startswith_def)
  have s2: "startswith (readline ''@a\<newline>@b\<newline>@c\<newline>'') ''@''"
    by (simp add: startswith_def)
  have p1: "SeqIO_parse example_ext ''>a\<newline>>b\<newline>>c\<newline>'' fmt =
     [\<lparr>record_id = ''a'', description = ''a len=1'', seq = ''ACGT''\<rparr>,
      \<lparr>record_id = ''b'', description = ''b len=1'', seq = ''ACGT''\<rparr>,
      \<lparr>record_id = ''c'', description = ''c len=1'', seq = ''ACGT''\<rparr>]" for fmt
    by (simp add: example_ext_def letter_records_def)
  have p2: "SeqIO_parse example_ext ''@a\<newline>@b\<newline>@c\<newline>'' fmt =
     [\<lparr>record_id = ''a'', description = ''a len=1'', seq = ''ACGT''\<rparr>,
      \<lparr>record_id = ''b'', description = ''b len=1'', seq = ''ACGT''\<rparr>,
      \<lparr>record_id = ''c'', description = ''c len=1'', seq = ''ACGT''\<rparr>]" for fmt
    by (simp add: example_ext_def letter_records_def)
  have w1: "SeqIO_write example_ext r ''fasta'' = ''>'' @ record_id r @ ''\<newline>''" for r
    by (simp add: example_ext_def)
  have w2: "SeqIO_write example_ext r ''fastq'' = ''@'' @ record_id r @ ''\<newline>''" for r
    by (simp add: example_ext_def)
  have f1: "files example_world ''d/o.filtered.fastq'' = None"
    by (simp add: example_world_def)
  from filter_isoforms_container_type [OF h1 h2, of example_ext "''d/o''" "{''a'', ''c''}"]
       filter_isoforms_container_type [OF h1 h3, of example_ext "''d/o''" "{''a'', ''c''}"]
       h1 h2 h3 s1 s2
  show ?thesis by (simp add: p1 p2 w1 w2 f1)
qed

lemma filter_isoforms_skip: "isoforms a = None \<Longrightarrow> filter_isoforms ext a prefix ids v = (Inr (), v)"
  by (simp add: filter_isoforms_def)

lemma filter_gtf_skip: "gtf a = None \<Longrightarrow> filter_gtf ext a prefix ids v = (Inr (), v)"
  by (simp add: filter_gtf_def)

lemma filter_sam_skip: "sam a = None \<Longrightarrow> filter_sam ext a prefix ids v = (Inr (), v)"
  by (simp add: filter_sam_def)

lemma filter_faa_skip: "faa a = None \<Longrightarrow> filter_faa ext a prefix ids v = (Inr (), v)"
  by (simp add: filter_faa_def)

lemma filter_files_frame:
  assumes "output_prefix a = Inr prefix"
    and "isoforms a = None \<or> (q \<noteq> prefix @ ''.filtered.fasta'' \<and> q \<noteq> prefix @ ''.filtered.fastq'')"
    and "gtf a = None \<or> q \<noteq> prefix @ ''.filtered.gtf''"
    and "sam a = None \<or> q \<noteq> prefix @ ''.filtered.sam''"
    and "faa a = None \<or> q \<noteq> prefix @ ''.filtered.faa''"
  shows "files (snd (filter_files ext a ids w)) q = files w q"
proof -
  have i: "files (snd (filter_isoforms ext a prefix ids v)) q = files v q" for v
    using assms(2) filter_isoforms_frame [of q prefix ext a ids v]
    by (auto simp: filter_isoforms_skip)
  have g: "files (snd (filter_gtf ext a prefix ids v)) q = files v q" for v
    using assms(3) filter_gtf_frame [of q prefix ext a ids v]
    by (auto simp: filter_gtf_skip)
  have s: "files (snd (filter_sam ext a prefix ids v)) q = files v q" for v
    using assms(4) filter_sam_frame [of q prefix ext a ids v]
    by (auto simp: filter_sam_skip)
  have f: "files (snd (filter_faa ext a prefix ids v)) q = files v q" for v
    using assms(5) filter_faa_frame [of q prefix ext a ids v]
    by (auto simp: filter_faa_skip)
  have sf: "files (snd (then_do (filter_sam ext a prefix ids) (filter_faa ext a prefix ids) v)) q
            = files v q" for v
    by (rule then_do_frame) (rule s, rule f)
  have gsf: "files (snd (then_do (filter_gtf ext a prefix ids)
               (then_do (filter_sam ext a prefix ids) (filter_faa ext a prefix ids)) v)) q
            = files v q" for v
    by (rule then_do_frame) (rule g, rule sf)
  have "files (snd (then_do (filter_isoforms ext a prefix ids)
          (then_do (filter_gtf ext a prefix ids)
               (then_do (filter_sam ext a prefix ids) (filter_faa ext a prefix ids))) w)) q
            = files w q"
    by (rule then_do_frame) (rule i, rule gsf)
  then show ?thesis using assms(1) by (simp add: filter_files_def)
qed

text \<open>
  C9. For each of the four formats, when its argument is absent the block of that format
  returns at once, without an error and leaving the world as it was, whatever the world;
  the whole of \<^verbatim>\<open>filter_files\<close> then does exactly what the blocks of the other formats
  do, in their order; and the output path of the absent format holds after the run what
  it held before (nothing, if it did not exist). When all four are absent nothing is
  done. The prefix is that of the run, \<^verbatim>\<open>args.dir + "/" + args.output\<close>.
\<close>

theorem absent_argument_skips_format:
  assumes "output_prefix a = Inr prefix"
  shows
    "(isoforms a = None \<longrightarrow>
        (\<forall>v. filter_isoforms ext a prefix ids v = (Inr (), v))
        \<and> filter_files ext a ids w =
            then_do (filter_gtf ext a prefix ids)
              (then_do (filter_sam ext a prefix ids) (filter_faa ext a prefix ids)) w
        \<and> files (snd (filter_files ext a ids w)) (prefix @ ''.filtered.fasta'') =
            files w (prefix @ ''.filtered.fasta'')
        \<and> files (snd (filter_files ext a ids w)) (prefix @ ''.filtered.fastq'') =
            files w (prefix @ ''.filtered.fastq''))
     \<and> (gtf a = None \<longrightarrow>
        (\<forall>v. filter_gtf ext a prefix ids v = (Inr (), v))
        \<and> filter_files ext a ids w =
            then_do (filter_isoforms ext a prefix ids)
              (then_do (filter_sam ext a prefix ids) (filter_faa ext a prefix ids)) w
        \<and> files (snd (filter_files ext a ids w)) (prefix @ ''.filtered.gtf'') =
            files w (prefix @ ''.filtered.gtf''))
     \<and> (sam a = None \<longrightarrow>
        (\<forall>v. filter_sam ext a prefix ids v = (Inr (), v))
        \<and> filter_files ext a ids w =
            then_do (filter_isoforms ext a prefix ids)
              (then_do (filter_gtf ext a prefix ids) (filter_faa ext a prefix ids)) w
        \<and> files (snd (filter_files ext a ids w)) (prefix @ ''.filtered.sam'') =
            files w (prefix @ ''.filtered.sam''))
     \<and> (faa a = None \<longrightarrow>
        (\<forall>v. filter_faa ext a prefix ids v = (Inr (), v))
        \<and> filter_files ext a ids w =
            then_do (filter_isoforms ext a prefix ids)
              (then_do (filter_gtf ext a prefix ids)
                 (then_do (filter_sam ext a prefix ids) (\<lambda>v. (Inr (), v)))) w
        \<and> files (snd (filter_files ext a ids w)) (prefix @ ''.filtered.faa'') =
            files w (prefix @ ''.filtered.faa''))
     \<and> (isoforms a = None \<and> gtf a = None \<and> sam a = None \<and> faa a = None \<longrightarrow>
        filter_files ext a ids w = (Inr (), w))"
proof (intro conjI impI)
  assume n: "isoforms a = None"
  show "\<forall>v. filter_isoforms ext a prefix ids v = (Inr (), v)"
    using n by (simp add: filter_isoforms_skip)
  show "filter_files ext a ids w =
            then_do (filter_gtf ext a prefix ids)
              (then_do (filter_sam ext a prefix ids) (filter_faa ext a prefix ids)) w"
    using assms n by (simp add: filter_files_def then_do_skip filter_isoforms_skip)
  show "files (snd (filter_files ext a ids w)) (prefix @ ''.filtered.fasta'') =
            files w (prefix @ ''.filtered.fasta'')"
    using n by (intro filter_files_frame [OF assms]) simp_all
  show "files (snd (filter_files ext a ids w)) (prefix @ ''.filtered.fastq'') =
            files w (prefix @ ''.filtered.fastq'')"
    using n by (intro filter_files_frame [OF assms]) simp_all
next
  assume n: "gtf a = None"
  have sk: "then_do (filter_gtf ext a prefix ids) g = g" for g
    by (rule ext) (simp add: then_do_skip filter_gtf_skip n)
  show "\<forall>v. filter_gtf ext a prefix ids v = (Inr (), v)"
    using n by (simp add: filter_gtf_skip)
  show "filter_files ext a ids w =
            then_do (filter_isoforms ext a prefix ids)
              (then_do (filter_sam ext a prefix ids) (filter_faa ext a prefix ids)) w"
    using assms by (simp add: filter_files_def sk)
  show "files (snd (filter_files ext a ids w)) (prefix @ ''.filtered.gtf'') =
            files w (prefix @ ''.filtered.gtf'')"
    using n by (intro filter_files_frame [OF assms]) simp_all
next
  assume n: "sam a = None"
  have sk: "then_do (filter_sam ext a prefix ids) g = g" for g
    by (rule ext) (simp add: then_do_skip filter_sam_skip n)
  show "\<forall>v. filter_sam ext a prefix ids v = (Inr (), v)"
    using n by (simp add: filter_sam_skip)
  show "filter_files ext a ids w =
            then_do (filter_isoforms ext a prefix ids)
              (then_do (filter_gtf ext a prefix ids) (filter_faa ext a prefix ids)) w"
    using assms by (simp add: filter_files_def sk)
  show "files (snd (filter_files ext a ids w)) (prefix @ ''.filtered.sam'') =
            files w (prefix @ ''.filtered.sam'')"
    using n by (intro filter_files_frame [OF assms]) simp_all
next
  assume n: "faa a = None"
  have sk: "filter_faa ext a prefix ids = (\<lambda>v. (Inr (), v))"
    by (rule ext) (simp add: filter_faa_skip n)
  show "\<forall>v. filter_faa ext a prefix ids v = (Inr (), v)"
    using n by (simp add: filter_faa_skip)
  show "filter_files ext a ids w =
            then_do (filter_isoforms ext a prefix ids)
              (then_do (filter_gtf ext a prefix ids)
                 (then_do (filter_sam ext a prefix ids) (\<lambda>v. (Inr (), v)))) w"
    using assms by (simp add: filter_files_def sk)
  show "files (snd (filter_files ext a ids w)) (prefix @ ''.filtered.faa'') =
            files w (prefix @ ''.filtered.faa'')"
    using n by (intro filter_files_frame [OF assms]) simp_all
next
  assume n: "isoforms a = None \<and> gtf a = None \<and> sam a = None \<and> faa a = None"
  show "filter_files ext a ids w = (Inr (), w)"
    using assms n
    by (simp add: filter_files_def then_do_def filter_isoforms_skip filter_gtf_skip
        filter_sam_skip filter_faa_skip)
qed

theorem absent_argument_skips_format_witness:
  "output_prefix (example_args\<lparr>isoforms := None, gtf := None, sam := None, faa := None\<rparr>) = Inr ''d/o''
   \<and> isoforms (example_args\<lparr>isoforms := None, gtf := None, sam := None, faa := None\<rparr>) = None
   \<and> gtf (example_args\<lparr>isoforms := None, gtf := None, sam := None, faa := None\<rparr>) = None
   \<and> sam (example_args\<lparr>isoforms := None, gtf := None, sam := None, faa := None\<rparr>) = None
   \<and> faa (example_args\<lparr>isoforms := None, gtf := None, sam := None, faa := None\<rparr>) = None
   \<and> filter_files example_ext
         (example_args\<lparr>isoforms := None, gtf := None, sam := None, faa := None\<rparr>)
         {''a'', ''c''} example_world = (Inr (), example_world)
   \<and> output_prefix (example_args\<lparr>sam := None\<rparr>) = Inr ''d/o''
   \<and> sam (example_args\<lparr>sam := None\<rparr>) = None
   \<and> fst (filter_files example_ext (example_args\<lparr>sam := None\<rparr>) {''a'', ''c''} example_world)
       = Inr ()
   \<and> files (snd (filter_files example_ext (example_args\<lparr>sam := None\<rparr>) {''a'', ''c''}
         example_world)) ''d/o.filtered.sam'' = None
   \<and> files (snd (filter_files example_ext (example_args\<lparr>sam := None\<rparr>) {''a'', ''c''}
         example_world)) ''d/o.filtered.fasta'' = Some ''>a\<newline>>c\<newline>''
   \<and> files (snd (filter_files example_ext (example_args\<lparr>sam := None\<rparr>) {''a'', ''c''}
         example_world)) ''d/o.filtered.gtf'' = Some ''chr1 c\<newline>chr1 a\<newline>''
   \<and> files (snd (filter_files example_ext (example_args\<lparr>sam := None\<rparr>) {''a'', ''c''}
         example_world)) ''d/o.filtered.faa'' = Some ''>a len=1\<newline>ACGT\<newline>''"
proof -
  have p0: "output_prefix (example_args\<lparr>isoforms := None, gtf := None, sam := None, faa := None\<rparr>)
            = Inr ''d/o''"
    by (simp add: output_prefix_def example_args_def)
  have n0: "isoforms (example_args\<lparr>isoforms := None, gtf := None, sam := None, faa := None\<rparr>) = None"
    "gtf (example_args\<lparr>isoforms := None, gtf := None, sam := None, faa := None\<rparr>) = None"
    "sam (example_args\<lparr>isoforms := None, gtf := None, sam := None, faa := None\<rparr>) = None"
    "faa (example_args\<lparr>isoforms := None, gtf := None, sam := None, faa := None\<rparr>) = None"
    by simp_all
  have all_absent: "filter_files example_ext
         (example_args\<lparr>isoforms := None, gtf := None, sam := None, faa := None\<rparr>)
         {''a'', ''c''} example_world = (Inr (), example_world)"
    using absent_argument_skips_format [OF p0, of example_ext "{''a'', ''c''}" example_world] n0
    by blast
  have p1: "output_prefix (example_args\<lparr>sam := None\<rparr>) = Inr ''d/o''"
    by (simp add: output_prefix_def example_args_def)
  have n1: "sam (example_args\<lparr>sam := None\<rparr>) = None" by simp
  have "files (snd (filter_files example_ext (example_args\<lparr>sam := None\<rparr>) {''a'', ''c''}
         example_world)) (''d/o'' @ ''.filtered.sam'') = files example_world (''d/o'' @ ''.filtered.sam'')"
    using absent_argument_skips_format [OF p1, of example_ext "{''a'', ''c''}" example_world] n1
    by blast
  then have no_sam: "files (snd (filter_files example_ext (example_args\<lparr>sam := None\<rparr>) {''a'', ''c''}
         example_world)) ''d/o.filtered.sam'' = None"
    by (simp add: example_world_def)
  have r: "fst (filter_files example_ext (example_args\<lparr>sam := None\<rparr>) {''a'', ''c''} example_world)
       = Inr ()" by code_simp
  have o1: "files (snd (filter_files example_ext (example_args\<lparr>sam := None\<rparr>) {''a'', ''c''}
         example_world)) ''d/o.filtered.fasta'' = Some ''>a\<newline>>c\<newline>''" by code_simp
  have o2: "files (snd (filter_files example_ext (example_args\<lparr>sam := None\<rparr>) {''a'', ''c''}
         example_world)) ''d/o.filtered.gtf'' = Some ''chr1 c\<newline>chr1 a\<newline>''" by code_simp
  have o3: "files (snd (filter_files example_ext (example_args\<lparr>sam := None\<rparr>) {''a'', ''c''}
         example_world)) ''d/o.filtered.faa'' = Some ''>a len=1\<newline>ACGT\<newline>''" by code_simp
  from p0 n0 all_absent p1 n1 r no_sam o1 o2 o3 show ?thesis by blast
qed











section \<open>Properties of run\_ML\<close>











end
